theory Spec2Isabelle
  imports Complex_Main "HOL-Library.AList" "HOL-Library.Sublist"
begin

section \<open>Python values, strings, dictionaries and errors\<close>

text \<open>
  The program is a Python script (\<^verbatim>\<open>app.py\<close>). Its numbers are Python floats,
  ints and bools; they are modelled by their mathematical values (a float by the real
  number it denotes), so rounding of float arithmetic is not part of the model.
  A Python \<^verbatim>\<open>str\<close> is a sequence of Unicode code points: the advisory messages,
  which contain emoji, are lists of code points. Strings that are ASCII only and are
  never searched (dictionary keys, priority labels, selectbox choices) are HOL strings.
\<close>

datatype pyval = PFloat real | PInt int | PBool bool

fun num_of :: "pyval \<Rightarrow> real" where
  "num_of (PFloat x) = x"
| "num_of (PInt i) = of_int i"
| "num_of (PBool b) = (if b then 1 else 0)"

type_synonym ustr = "nat list"

definition ascii :: "string \<Rightarrow> ustr" where
  "ascii s = map of_char s"

text \<open>A \<^verbatim>\<open>dict\<close> keeps insertion order; assigning to an existing key keeps its place
  (this is \<^const>\<open>AList.update\<close>).\<close>

type_synonym pydict = "(string \<times> pyval) list"

datatype error = ZeroDivisionError | KeyError string

definition bind_result :: "error + 'a \<Rightarrow> ('a \<Rightarrow> error + 'b) \<Rightarrow> error + 'b" where
  "bind_result m f = (case m of Inl e \<Rightarrow> Inl e | Inr x \<Rightarrow> f x)"

definition getitem :: "pydict \<Rightarrow> string \<Rightarrow> error + pyval" where
  "getitem d k = (case map_of d k of None \<Rightarrow> Inl (KeyError k) | Some v \<Rightarrow> Inr v)"

definition py_div :: "real \<Rightarrow> real \<Rightarrow> error + real" where
  "py_div x y = (if y = 0 then Inl ZeroDivisionError else Inr (x / y))"

text \<open>\<^verbatim>\<open>sum(...)\<close> adds the items from left to right, starting at 0. Here the
  additions are those of the real numbers, so this total is the exact sum; the total
  of the script is the sum of IEEE doubles, rounded at each addition. Nothing in this
  theory states that the script's total is exact.\<close>

definition py_sum :: "real list \<Rightarrow> real" where
  "py_sum xs = foldl (+) 0 xs"

text \<open>\<^verbatim>\<open>needle in hay\<close> on strings: \<^verbatim>\<open>needle\<close> occurs as a contiguous run.\<close>

fun starts_with :: "'a list \<Rightarrow> 'a list \<Rightarrow> bool" where
  "starts_with [] hay = True"
| "starts_with (x # xs) [] = False"
| "starts_with (x # xs) (y # ys) = (x = y \<and> starts_with xs ys)"

fun str_in :: "'a list \<Rightarrow> 'a list \<Rightarrow> bool" where
  "str_in needle [] = (needle = [])"
| "str_in needle (y # ys) = (starts_with needle (y # ys) \<or> str_in needle ys)"

section \<open>Generate Nudges\<close>

definition msg_overspent :: ustr where
  "msg_overspent = [0x274C] @ ascii '' You'' @ [0x2019]
     @ ascii ''ve overspent this month. Consider cutting expenses.''"

definition msg_close_to_overspending :: ustr where
  "msg_close_to_overspending =
     [0x26A0, 0xFE0F] @ ascii '' Close to overspending. Monitor your expenses.''"

definition msg_savings_significantly_below :: ustr where
  "msg_savings_significantly_below =
     [0x1F4B0] @ ascii '' You are significantly below your savings goal.''"

definition msg_savings_below_target :: ustr where
  "msg_savings_below_target =
     [0x1F4B0] @ ascii '' Below your savings target. Consider increasing savings.''"

definition msg_discretionary_very_high :: ustr where
  "msg_discretionary_very_high =
     [0x1F6CD, 0xFE0F] @ ascii '' Very high discretionary spending.''"

definition msg_discretionary_reduce :: ustr where
  "msg_discretionary_reduce =
     [0x1F6CD, 0xFE0F] @ ascii '' Consider reducing discretionary expenses.''"

definition msg_rent_too_high :: ustr where
  "msg_rent_too_high = [0x1F3E0] @ ascii '' Rent is too high relative to your income.''"

definition msg_rent_lower :: ustr where
  "msg_rent_lower = [0x1F3E0] @ ascii '' Consider lowering your housing costs.''"

definition msg_loan_burden :: ustr where
  "msg_loan_burden = [0x1F4C9] @ ascii '' High loan repayment burden detected.''"

text \<open>The five rule blocks of \<^verbatim>\<open>generate_nudges\<close>, in source order. Each reads
  \<^verbatim>\<open>row[...]\<close> (a missing key raises \<^verbatim>\<open>KeyError\<close>) and appends to \<^verbatim>\<open>nudges\<close>.\<close>

definition overspending_rule :: "pydict \<Rightarrow> ustr list \<Rightarrow> error + ustr list" where
  "overspending_rule row nudges =
     bind_result (getitem row ''Disposable_Utilization'') (\<lambda>v.
       if num_of v > 1.0 then Inr (nudges @ [msg_overspent])
       else bind_result (getitem row ''Disposable_Utilization'') (\<lambda>w.
         if num_of w > 0.85 then Inr (nudges @ [msg_close_to_overspending])
         else Inr nudges))"

definition savings_gap_rule :: "pydict \<Rightarrow> ustr list \<Rightarrow> error + ustr list" where
  "savings_gap_rule row nudges =
     bind_result (getitem row ''Savings_vs_Desired'') (\<lambda>v.
       if num_of v < - 0.1 then Inr (nudges @ [msg_savings_significantly_below])
       else bind_result (getitem row ''Savings_vs_Desired'') (\<lambda>w.
         if num_of w < - 0.05 then Inr (nudges @ [msg_savings_below_target])
         else Inr nudges))"

definition discretionary_rule :: "pydict \<Rightarrow> ustr list \<Rightarrow> error + ustr list" where
  "discretionary_rule row nudges =
     bind_result (getitem row ''Discretionary_to_Income'') (\<lambda>v.
       if num_of v > 0.35 then Inr (nudges @ [msg_discretionary_very_high])
       else bind_result (getitem row ''Discretionary_to_Income'') (\<lambda>w.
         if num_of w > 0.25 then Inr (nudges @ [msg_discretionary_reduce])
         else Inr nudges))"

definition rent_burden_rule :: "pydict \<Rightarrow> ustr list \<Rightarrow> error + ustr list" where
  "rent_burden_rule row nudges =
     bind_result (getitem row ''Rent_to_Income'') (\<lambda>v.
       if num_of v > 0.4 then Inr (nudges @ [msg_rent_too_high])
       else bind_result (getitem row ''Rent_to_Income'') (\<lambda>w.
         if num_of w > 0.3 then Inr (nudges @ [msg_rent_lower])
         else Inr nudges))"

definition loan_burden_rule :: "pydict \<Rightarrow> ustr list \<Rightarrow> error + ustr list" where
  "loan_burden_rule row nudges =
     bind_result (getitem row ''Loan_to_Income'') (\<lambda>v.
       if num_of v > 0.3 then Inr (nudges @ [msg_loan_burden])
       else Inr nudges)"

definition generate_nudges :: "pydict \<Rightarrow> error + ustr list" where
  "generate_nudges row =
     bind_result (overspending_rule row []) (\<lambda>n1.
     bind_result (savings_gap_rule row n1) (\<lambda>n2.
     bind_result (discretionary_rule row n2) (\<lambda>n3.
     bind_result (rent_burden_rule row n3) (\<lambda>n4.
     loan_burden_rule row n4))))"

section \<open>Priority classification\<close>

definition high_marker :: "ustr \<Rightarrow> bool" where
  "high_marker n \<longleftrightarrow>
     str_in [0x274C] n
     \<or> str_in ([0x1F4B0] @ ascii '' You are significantly'') n
     \<or> str_in ([0x1F3E0] @ ascii '' Rent is too high'') n"

definition medium_marker :: "ustr \<Rightarrow> bool" where
  "medium_marker n \<longleftrightarrow>
     str_in [0x26A0, 0xFE0F] n
     \<or> str_in ([0x1F4B0] @ ascii '' Below your savings'') n
     \<or> str_in ([0x1F6CD, 0xFE0F] @ ascii '' Very high'') n"

definition classify_nudge_priority :: "ustr list \<Rightarrow> string" where
  "classify_nudge_priority nudges =
     (let high = list_ex high_marker nudges;
          medium = list_ex medium_marker nudges
      in if high then ''High''
         else if medium \<or> length nudges \<ge> 3 then ''Medium''
         else if nudges \<noteq> [] then ''Low''
         else ''None'')"

section \<open>Sidebar and spending inputs\<close>

text \<open>The values read from the widgets (lines 30 to 59 of the script).\<close>

record raw_inputs =
  income :: real
  age :: int
  dependents :: int
  occupation :: string
  city_tier :: string
  desired_savings :: real
  actual_savings :: real
  rent :: real
  loan_repay :: real
  insurance :: real
  groceries :: real
  transport :: real
  utilities :: real
  healthcare :: real
  education :: real
  eating_out :: real
  entertainment :: real
  misc :: real

section \<open>Derived metrics\<close>

definition fixed :: "raw_inputs \<Rightarrow> (string \<times> real) list" where
  "fixed r = [(''Rent'', rent r), (''Loan_Repayment'', loan_repay r),
     (''Insurance'', insurance r)]"

definition essential :: "raw_inputs \<Rightarrow> (string \<times> real) list" where
  "essential r = [(''Groceries'', groceries r), (''Transport'', transport r),
     (''Utilities'', utilities r), (''Healthcare'', healthcare r),
     (''Education'', education r)]"

definition discretionary :: "raw_inputs \<Rightarrow> (string \<times> real) list" where
  "discretionary r = [(''Eating_Out'', eating_out r),
     (''Entertainment'', entertainment r), (''Miscellaneous'', misc r)]"

definition dict_values :: "('k \<times> 'v) list \<Rightarrow> 'v list" where
  "dict_values d = map snd d"

record derived_metrics =
  total_expenses :: real
  discretionary_spend :: real
  discretionary_to_income :: real
  disposable_utilization :: real
  savings_vs_desired :: real
  rent_to_income :: real
  loan_to_income :: real
  overspending_alert :: bool
  savings_rate :: real

text \<open>Lines 66 to 74. Each \<^verbatim>\<open>/ income\<close> raises \<^verbatim>\<open>ZeroDivisionError\<close> when
  \<^verbatim>\<open>income\<close> is zero; nothing else in the block can raise.\<close>

definition derive_metrics :: "raw_inputs \<Rightarrow> error + derived_metrics" where
  "derive_metrics r =
     (let total = py_sum (dict_values (fixed r)) + py_sum (dict_values (essential r))
                    + py_sum (dict_values (discretionary r));
          spend = py_sum (dict_values (discretionary r))
      in bind_result (py_div spend (income r)) (\<lambda>d_to_i.
         bind_result (py_div total (income r)) (\<lambda>d_util.
         bind_result (py_div (actual_savings r - desired_savings r) (income r)) (\<lambda>s_vs_d.
         bind_result (py_div (rent r) (income r)) (\<lambda>r_to_i.
         bind_result (py_div (loan_repay r) (income r)) (\<lambda>l_to_i.
         let alert = (d_util > 1.0)
         in bind_result (py_div (actual_savings r) (income r)) (\<lambda>s_rate.
         Inr \<lparr> total_expenses = total, discretionary_spend = spend,
               discretionary_to_income = d_to_i, disposable_utilization = d_util,
               savings_vs_desired = s_vs_d, rent_to_income = r_to_i,
               loan_to_income = l_to_i, overspending_alert = alert,
               savings_rate = s_rate \<rparr>)))))))"

section \<open>Assemble data\<close>

text \<open>A dict display inserts its items from left to right.\<close>

definition dict_display :: "(string \<times> pyval) list \<Rightarrow> pydict" where
  "dict_display items = foldl (\<lambda>d (k, v). AList.update k v d) [] items"

definition float_items :: "(string \<times> real) list \<Rightarrow> (string \<times> pyval) list" where
  "float_items d = map (\<lambda>(k, v). (k, PFloat v)) d"

definition user_data :: "raw_inputs \<Rightarrow> derived_metrics \<Rightarrow> pydict" where
  "user_data r m = dict_display
     ([(''Income'', PFloat (income r)),
       (''Age'', PInt (age r)),
       (''Dependents'', PInt (dependents r)),
       (''Desired_Savings'', PFloat (desired_savings r)),
       (''Actual_Savings'', PFloat (actual_savings r)),
       (''Total_Expenses'', PFloat (total_expenses m)),
       (''Disposable_Utilization'', PFloat (disposable_utilization m)),
       (''Discretionary_to_Income'', PFloat (discretionary_to_income m)),
       (''Savings_vs_Desired'', PFloat (savings_vs_desired m)),
       (''Rent_to_Income'', PFloat (rent_to_income m)),
       (''Loan_to_Income'', PFloat (loan_to_income m)),
       (''Overspending_Alert'', PBool (overspending_alert m)),
       (''Savings_Rate'', PFloat (savings_rate m))]
      @ float_items (fixed r) @ float_items (essential r) @ float_items (discretionary r))"

text \<open>The two one-hot loops (lines 95 to 98).\<close>

definition one_hot :: "string \<Rightarrow> string \<Rightarrow> string list \<Rightarrow> pydict \<Rightarrow> pydict" where
  "one_hot name choice vals d =
     foldl (\<lambda>d val. AList.update (name @ val) (PInt (if choice = val then 1 else 0)) d) d vals"

definition encoded_user_data :: "raw_inputs \<Rightarrow> derived_metrics \<Rightarrow> pydict" where
  "encoded_user_data r m =
     one_hot ''City_Tier_'' (city_tier r) [''Tier_1'', ''Tier_2'', ''Tier_3'']
       (one_hot ''Occupation_'' (occupation r)
          [''Employed'', ''Self_Employed'', ''Student'', ''Retired''] (user_data r m))"

text \<open>The loop over \<^verbatim>\<open>feature_cols\<close> (lines 99 to 101).\<close>

definition fill_missing :: "string list \<Rightarrow> pydict \<Rightarrow> pydict" where
  "fill_missing feature_cols d =
     foldl (\<lambda>d col. if map_of d col = None then AList.update col (PInt 0) d else d)
       d feature_cols"

text \<open>\<^verbatim>\<open>pd.DataFrame([user_data])[feature_cols]\<close>: the one row of the frame, as its
  columns in the order selected; a column that the frame does not have raises
  \<^verbatim>\<open>KeyError\<close>.\<close>

fun select_columns :: "pydict \<Rightarrow> string list \<Rightarrow> error + (string \<times> pyval) list" where
  "select_columns d [] = Inr []"
| "select_columns d (c # cs) =
     (case map_of d c of
        None \<Rightarrow> Inl (KeyError c)
      | Some v \<Rightarrow> bind_result (select_columns d cs) (\<lambda>rest. Inr ((c, v) # rest)))"

definition filled_user_data :: "raw_inputs \<Rightarrow> derived_metrics \<Rightarrow> string list \<Rightarrow> pydict" where
  "filled_user_data r m feature_cols = fill_missing feature_cols (encoded_user_data r m)"

definition input_df ::
  "raw_inputs \<Rightarrow> derived_metrics \<Rightarrow> string list \<Rightarrow> error + (string \<times> pyval) list" where
  "input_df r m feature_cols = select_columns (filled_user_data r m feature_cols) feature_cols"

section \<open>Vocabulary of the specification\<close>

text \<open>The specification speaks of a DerivedMetrics structure with named ratio fields, of
  nudges tagged with a category and a tier, and of a priority decided from the tiers
  present. The definitions of this section follow those words; the theorems below
  compare them with the definitions taken from the script.\<close>

definition ratio_fields :: "string list" where
  "ratio_fields = [''Disposable_Utilization'', ''Savings_vs_Desired'',
     ''Discretionary_to_Income'', ''Rent_to_Income'', ''Loan_to_Income'']"

definition has_ratio_fields :: "pydict \<Rightarrow> bool" where
  "has_ratio_fields row = list_all (\<lambda>k. map_of row k \<noteq> None) ratio_fields"

definition ratio :: "pydict \<Rightarrow> string \<Rightarrow> real" where
  "ratio row k = (case map_of row k of None \<Rightarrow> 0 | Some v \<Rightarrow> num_of v)"

definition same_ratio :: "pydict \<Rightarrow> pydict \<Rightarrow> string \<Rightarrow> bool" where
  "same_ratio row1 row2 k \<longleftrightarrow>
     map_option num_of (map_of row1 k) = map_option num_of (map_of row2 k)"




text \<open>The decision sequence of the Priority Classifier, on the tiers present.\<close>

definition priority_by_tier :: "ustr list \<Rightarrow> string" where
  "priority_by_tier ns =
     (if msg_overspent \<in> set ns \<or> msg_savings_significantly_below \<in> set ns
         \<or> msg_rent_too_high \<in> set ns then ''High''
      else if msg_close_to_overspending \<in> set ns \<or> msg_savings_below_target \<in> set ns
         \<or> msg_discretionary_very_high \<in> set ns \<or> length ns \<ge> 3 then ''Medium''
      else if ns \<noteq> [] then ''Low''
      else ''None'')"

text \<open>Lines 163 and 164: the rule engine followed by the classifier.\<close>

definition nudge_priority :: "pydict \<Rightarrow> error + string" where
  "nudge_priority row =
     bind_result (generate_nudges row) (\<lambda>nudges. Inr (classify_nudge_priority nudges))"

definition all_nudges :: "ustr list" where
  "all_nudges = [msg_overspent, msg_close_to_overspending,
     msg_savings_significantly_below, msg_savings_below_target,
     msg_discretionary_very_high, msg_discretionary_reduce,
     msg_rent_too_high, msg_rent_lower, msg_loan_burden]"

text \<open>A DerivedMetrics row that holds just the five ratios, as floats.\<close>

definition ratios_row :: "real \<Rightarrow> real \<Rightarrow> real \<Rightarrow> real \<Rightarrow> real \<Rightarrow> pydict" where
  "ratios_row du sv di re lo =
     [(''Disposable_Utilization'', PFloat du), (''Savings_vs_Desired'', PFloat sv),
      (''Discretionary_to_Income'', PFloat di), (''Rent_to_Income'', PFloat re),
      (''Loan_to_Income'', PFloat lo)]"

text \<open>The analysis of one request: the metrics, the assembled row, the nudges and their
  priority (lines 66 to 101 and 163 to 164; the calls of the pretrained models are
  outside the model).\<close>

definition analyze :: "raw_inputs \<Rightarrow> string list \<Rightarrow> error + ustr list \<times> string" where
  "analyze r feature_cols =
     bind_result (derive_metrics r) (\<lambda>m.
     bind_result (generate_nudges (filled_user_data r m feature_cols)) (\<lambda>nudges.
     Inr (nudges, classify_nudge_priority nudges)))"

text \<open>The values the widgets start with (lines 30 to 59).\<close>

definition default_inputs :: raw_inputs where
  "default_inputs = \<lparr> income = 5000, age = 30, dependents = 1,
     occupation = ''Employed'', city_tier = ''Tier_1'',
     desired_savings = 1000, actual_savings = 2000,
     rent = 0, loan_repay = 0, insurance = 0,
     groceries = 0, transport = 0, utilities = 0, healthcare = 0, education = 0,
     eating_out = 0, entertainment = 0, misc = 0 \<rparr>"

text \<open>The metrics of the starting values: no expenses, savings above the goal.\<close>

definition default_metrics :: derived_metrics where
  "default_metrics = \<lparr> total_expenses = 0, discretionary_spend = 0,
     discretionary_to_income = 0, disposable_utilization = 0, savings_vs_desired = 0.2,
     rent_to_income = 0, loan_to_income = 0, overspending_alert = False,
     savings_rate = 0.4 \<rparr>"

section \<open>Substring search and the nine messages\<close>

lemma starts_with_prefix: "starts_with xs ys \<longleftrightarrow> prefix xs ys"
  by (induction xs ys rule: starts_with.induct) auto

lemma str_in_sublist: "str_in needle hay \<longleftrightarrow> sublist needle hay"
  by (induction hay) (auto simp: starts_with_prefix sublist_Cons_right)

lemmas msg_defs = msg_overspent_def msg_close_to_overspending_def
  msg_savings_significantly_below_def msg_savings_below_target_def
  msg_discretionary_very_high_def msg_discretionary_reduce_def
  msg_rent_too_high_def msg_rent_lower_def msg_loan_burden_def

lemma high_marker_msgs:
  "high_marker msg_overspent" "\<not> high_marker msg_close_to_overspending"
  "high_marker msg_savings_significantly_below" "\<not> high_marker msg_savings_below_target"
  "\<not> high_marker msg_discretionary_very_high" "\<not> high_marker msg_discretionary_reduce"
  "high_marker msg_rent_too_high" "\<not> high_marker msg_rent_lower"
  "\<not> high_marker msg_loan_burden"
  by (simp_all add: high_marker_def msg_defs ascii_def)

lemma medium_marker_msgs:
  "\<not> medium_marker msg_overspent" "medium_marker msg_close_to_overspending"
  "\<not> medium_marker msg_savings_significantly_below" "medium_marker msg_savings_below_target"
  "medium_marker msg_discretionary_very_high" "\<not> medium_marker msg_discretionary_reduce"
  "\<not> medium_marker msg_rent_too_high" "\<not> medium_marker msg_rent_lower"
  "\<not> medium_marker msg_loan_burden"
  by (simp_all add: medium_marker_def msg_defs ascii_def)


lemma all_nudges_distinct: "distinct all_nudges"
  by (simp add: all_nudges_def msg_defs ascii_def)

section \<open>The rule engine in closed form\<close>

lemma has_ratio_fieldsD:
  assumes "has_ratio_fields row"
  obtains du sv di re lo where
    "map_of row ''Disposable_Utilization'' = Some du"
    "map_of row ''Savings_vs_Desired'' = Some sv"
    "map_of row ''Discretionary_to_Income'' = Some di"
    "map_of row ''Rent_to_Income'' = Some re"
    "map_of row ''Loan_to_Income'' = Some lo"
  using assms by (auto simp: has_ratio_fields_def ratio_fields_def)

lemma generate_nudges_closed:
  assumes "has_ratio_fields row"
  shows "generate_nudges row = Inr
    ((if ratio row ''Disposable_Utilization'' > 1 then [msg_overspent]
      else if ratio row ''Disposable_Utilization'' > 0.85 then [msg_close_to_overspending]
      else [])
     @ (if ratio row ''Savings_vs_Desired'' < - 0.1 then [msg_savings_significantly_below]
        else if ratio row ''Savings_vs_Desired'' < - 0.05 then [msg_savings_below_target]
        else [])
     @ (if ratio row ''Discretionary_to_Income'' > 0.35 then [msg_discretionary_very_high]
        else if ratio row ''Discretionary_to_Income'' > 0.25 then [msg_discretionary_reduce]
        else [])
     @ (if ratio row ''Rent_to_Income'' > 0.4 then [msg_rent_too_high]
        else if ratio row ''Rent_to_Income'' > 0.3 then [msg_rent_lower]
        else [])
     @ (if ratio row ''Loan_to_Income'' > 0.3 then [msg_loan_burden] else []))"
proof -
  from assms obtain du sv di re lo where f:
    "map_of row ''Disposable_Utilization'' = Some du"
    "map_of row ''Savings_vs_Desired'' = Some sv"
    "map_of row ''Discretionary_to_Income'' = Some di"
    "map_of row ''Rent_to_Income'' = Some re"
    "map_of row ''Loan_to_Income'' = Some lo"
    by (rule has_ratio_fieldsD)
  have o: "overspending_rule row ns = Inr (ns @
      (if ratio row ''Disposable_Utilization'' > 1 then [msg_overspent]
       else if ratio row ''Disposable_Utilization'' > 0.85 then [msg_close_to_overspending]
       else []))" for ns
    using f(1) by (simp add: overspending_rule_def getitem_def bind_result_def ratio_def)
  have s: "savings_gap_rule row ns = Inr (ns @
      (if ratio row ''Savings_vs_Desired'' < - 0.1 then [msg_savings_significantly_below]
       else if ratio row ''Savings_vs_Desired'' < - 0.05 then [msg_savings_below_target]
       else []))" for ns
    using f(2) by (simp add: savings_gap_rule_def getitem_def bind_result_def ratio_def)
  have d: "discretionary_rule row ns = Inr (ns @
      (if ratio row ''Discretionary_to_Income'' > 0.35 then [msg_discretionary_very_high]
       else if ratio row ''Discretionary_to_Income'' > 0.25 then [msg_discretionary_reduce]
       else []))" for ns
    using f(3) by (simp add: discretionary_rule_def getitem_def bind_result_def ratio_def)
  have r: "rent_burden_rule row ns = Inr (ns @
      (if ratio row ''Rent_to_Income'' > 0.4 then [msg_rent_too_high]
       else if ratio row ''Rent_to_Income'' > 0.3 then [msg_rent_lower]
       else []))" for ns
    using f(4) by (simp add: rent_burden_rule_def getitem_def bind_result_def ratio_def)
  have l: "loan_burden_rule row ns = Inr (ns @
      (if ratio row ''Loan_to_Income'' > 0.3 then [msg_loan_burden] else []))" for ns
    using f(5) by (simp add: loan_burden_rule_def getitem_def bind_result_def ratio_def)
  show ?thesis
    unfolding generate_nudges_def o s d r l bind_result_def by simp
qed

lemma generate_nudges_Inr_fields:
  assumes "generate_nudges row = Inr ns"
  shows "has_ratio_fields row"
  using assms
  by (auto simp: generate_nudges_def overspending_rule_def savings_gap_rule_def
      discretionary_rule_def rent_burden_rule_def loan_burden_rule_def getitem_def
      bind_result_def has_ratio_fields_def ratio_fields_def
      split: option.splits sum.splits if_splits)

lemma tier_pick_subset:
  "x \<in> S \<Longrightarrow> y \<in> S \<Longrightarrow> set (if a then [x] else if b then [y] else []) \<subseteq> S"
  by auto

lemma generate_nudges_subset:
  assumes "generate_nudges row = Inr ns"
  shows "set ns \<subseteq> set all_nudges"
proof -
  have f: "has_ratio_fields row" using assms by (rule generate_nudges_Inr_fields)
  have m: "msg_overspent \<in> set all_nudges" "msg_close_to_overspending \<in> set all_nudges"
    "msg_savings_significantly_below \<in> set all_nudges"
    "msg_savings_below_target \<in> set all_nudges"
    "msg_discretionary_very_high \<in> set all_nudges"
    "msg_discretionary_reduce \<in> set all_nudges"
    "msg_rent_too_high \<in> set all_nudges" "msg_rent_lower \<in> set all_nudges"
    "msg_loan_burden \<in> set all_nudges"
    by (simp_all add: all_nudges_def)
  have l: "set (if a then [msg_loan_burden] else []) \<subseteq> set all_nudges" for a
    using m(9) by auto
  from generate_nudges_closed[OF f] assms have "ns =
    (if ratio row ''Disposable_Utilization'' > 1 then [msg_overspent]
      else if ratio row ''Disposable_Utilization'' > 0.85 then [msg_close_to_overspending]
      else [])
     @ (if ratio row ''Savings_vs_Desired'' < - 0.1 then [msg_savings_significantly_below]
        else if ratio row ''Savings_vs_Desired'' < - 0.05 then [msg_savings_below_target]
        else [])
     @ (if ratio row ''Discretionary_to_Income'' > 0.35 then [msg_discretionary_very_high]
        else if ratio row ''Discretionary_to_Income'' > 0.25 then [msg_discretionary_reduce]
        else [])
     @ (if ratio row ''Rent_to_Income'' > 0.4 then [msg_rent_too_high]
        else if ratio row ''Rent_to_Income'' > 0.3 then [msg_rent_lower]
        else [])
     @ (if ratio row ''Loan_to_Income'' > 0.3 then [msg_loan_burden] else [])"
    by simp
  then show ?thesis
    unfolding set_append Un_subset_iff
    using tier_pick_subset[OF m(1) m(2)] tier_pick_subset[OF m(3) m(4)]
      tier_pick_subset[OF m(5) m(6)] tier_pick_subset[OF m(7) m(8)] l
    by (simp only: set_append Un_subset_iff simp_thms)
qed

lemma ratios_row_fields: "has_ratio_fields (ratios_row du sv di re lo)"
  by (simp add: has_ratio_fields_def ratio_fields_def ratios_row_def)

lemma ratios_row_ratio:
  "ratio (ratios_row du sv di re lo) ''Disposable_Utilization'' = du"
  "ratio (ratios_row du sv di re lo) ''Savings_vs_Desired'' = sv"
  "ratio (ratios_row du sv di re lo) ''Discretionary_to_Income'' = di"
  "ratio (ratios_row du sv di re lo) ''Rent_to_Income'' = re"
  "ratio (ratios_row du sv di re lo) ''Loan_to_Income'' = lo"
  by (simp_all add: ratio_def ratios_row_def)

section \<open>The priority classifier on the messages of the rule engine\<close>

lemma high_marker_iff:
  assumes "n \<in> set all_nudges"
  shows "high_marker n \<longleftrightarrow>
    n = msg_overspent \<or> n = msg_savings_significantly_below \<or> n = msg_rent_too_high"
  using assms all_nudges_distinct
  by (auto simp: all_nudges_def high_marker_msgs)

lemma medium_marker_iff:
  assumes "n \<in> set all_nudges"
  shows "medium_marker n \<longleftrightarrow>
    n = msg_close_to_overspending \<or> n = msg_savings_below_target
    \<or> n = msg_discretionary_very_high"
  using assms all_nudges_distinct
  by (auto simp: all_nudges_def medium_marker_msgs)

lemma classify_by_tier:
  assumes "set ns \<subseteq> set all_nudges"
  shows "classify_nudge_priority ns = priority_by_tier ns"
proof -
  have h: "list_ex high_marker ns \<longleftrightarrow>
      msg_overspent \<in> set ns \<or> msg_savings_significantly_below \<in> set ns
      \<or> msg_rent_too_high \<in> set ns"
    using assms high_marker_iff by (auto simp: list_ex_iff)
  have m: "list_ex medium_marker ns \<longleftrightarrow>
      msg_close_to_overspending \<in> set ns \<or> msg_savings_below_target \<in> set ns
      \<or> msg_discretionary_very_high \<in> set ns"
    using assms medium_marker_iff by (auto simp: list_ex_iff)
  show ?thesis
    unfolding classify_nudge_priority_def priority_by_tier_def Let_def h m by simp
qed

lemma classify_single_low:
  "classify_nudge_priority [msg_loan_burden] = ''Low''"
  "classify_nudge_priority [msg_discretionary_reduce] = ''Low''"
  by (simp_all add: classify_nudge_priority_def high_marker_msgs medium_marker_msgs)

text \<open>
  Claim C2. For every nudge list that the rule engine produces, the classifier, which
  searches the message texts for marker substrings, decides as the tier table says:
  High if an Overspending-high, SavingsGap-high or RentBurden-high message is in the
  list; else Medium if an Overspending-medium, SavingsGap-medium or Discretionary-high
  message is in the list or the list has at least three messages; else Low if the list
  is not empty; else None.
\<close>

theorem classifier_follows_decision_sequence:
  "generate_nudges row = Inr ns \<Longrightarrow> classify_nudge_priority ns = priority_by_tier ns"
  by (rule classify_by_tier) (rule generate_nudges_subset)

theorem classifier_follows_decision_sequence_witness:
  "generate_nudges (ratios_row 0.9 0 0.4 0 0.5)
     = Inr [msg_close_to_overspending, msg_discretionary_very_high, msg_loan_burden]
   \<and> classify_nudge_priority
       [msg_close_to_overspending, msg_discretionary_very_high, msg_loan_burden]
     = priority_by_tier
       [msg_close_to_overspending, msg_discretionary_very_high, msg_loan_burden]"
proof -
  have g: "generate_nudges (ratios_row 0.9 0 0.4 0 0.5)
     = Inr [msg_close_to_overspending, msg_discretionary_very_high, msg_loan_burden]"
    by (simp add: generate_nudges_closed[OF ratios_row_fields] ratios_row_ratio)
  from classifier_follows_decision_sequence[OF g] g show ?thesis by simp
qed

text \<open>
  Claim C4. The classifier returns the priority None exactly when the nudge list is
  empty, and on every non-empty list it returns Low, Medium or High; this holds for
  every list of strings, so in particular for the list that the rule engine produces
  from any DerivedMetrics.
\<close>

theorem priority_none_iff_no_nudges:
  "(classify_nudge_priority ns = ''None'' \<longleftrightarrow> ns = [])
   \<and> (ns \<noteq> [] \<longrightarrow> classify_nudge_priority ns = ''Low''
         \<or> classify_nudge_priority ns = ''Medium''
         \<or> classify_nudge_priority ns = ''High'')"
  by (simp add: classify_nudge_priority_def Let_def)

theorem priority_none_iff_no_nudges_witness:
  "[msg_loan_burden] \<noteq> []
   \<and> classify_nudge_priority [msg_loan_burden] = ''Low''
   \<and> classify_nudge_priority [msg_loan_burden] \<noteq> ''None''
   \<and> classify_nudge_priority [] = ''None''"
  using priority_none_iff_no_nudges[of "[msg_loan_burden]"]
    priority_none_iff_no_nudges[of "[]"] classify_single_low(1)
  by simp

text \<open>
  Claim C8. When the loan-burden rule is the only rule that fires, the rule engine
  returns the single loan-burden message and the classifier returns Low.
\<close>

theorem loan_burden_alone_is_low:
  assumes "has_ratio_fields row"
    and "ratio row ''Loan_to_Income'' > 0.3"
    and "ratio row ''Disposable_Utilization'' \<le> 0.85"
    and "ratio row ''Savings_vs_Desired'' \<ge> - 0.05"
    and "ratio row ''Discretionary_to_Income'' \<le> 0.25"
    and "ratio row ''Rent_to_Income'' \<le> 0.3"
  shows "generate_nudges row = Inr [msg_loan_burden] \<and> nudge_priority row = Inr ''Low''"
proof -
  have g: "generate_nudges row = Inr [msg_loan_burden]"
    using assms(2-) by (simp add: generate_nudges_closed[OF assms(1)])
  show ?thesis
    by (simp add: nudge_priority_def g classify_single_low bind_result_def)
qed

theorem loan_burden_alone_is_low_witness:
  "has_ratio_fields (ratios_row 0.5 0.2 0.1 0.2 0.4)
   \<and> ratio (ratios_row 0.5 0.2 0.1 0.2 0.4) ''Loan_to_Income'' > 0.3
   \<and> ratio (ratios_row 0.5 0.2 0.1 0.2 0.4) ''Disposable_Utilization'' \<le> 0.85
   \<and> ratio (ratios_row 0.5 0.2 0.1 0.2 0.4) ''Savings_vs_Desired'' \<ge> - 0.05
   \<and> ratio (ratios_row 0.5 0.2 0.1 0.2 0.4) ''Discretionary_to_Income'' \<le> 0.25
   \<and> ratio (ratios_row 0.5 0.2 0.1 0.2 0.4) ''Rent_to_Income'' \<le> 0.3
   \<and> generate_nudges (ratios_row 0.5 0.2 0.1 0.2 0.4) = Inr [msg_loan_burden]
   \<and> nudge_priority (ratios_row 0.5 0.2 0.1 0.2 0.4) = Inr ''Low''"
  using loan_burden_alone_is_low[of "ratios_row 0.5 0.2 0.1 0.2 0.4"]
  by (simp add: ratios_row_fields ratios_row_ratio)

section \<open>What the rule engine reads\<close>

lemma overspending_rule_cong:
  "same_ratio row1 row2 ''Disposable_Utilization'' \<Longrightarrow>
   overspending_rule row1 ns = overspending_rule row2 ns"
  by (cases "map_of row1 ''Disposable_Utilization''";
      cases "map_of row2 ''Disposable_Utilization''")
    (simp_all add: overspending_rule_def getitem_def bind_result_def same_ratio_def)

lemma savings_gap_rule_cong:
  "same_ratio row1 row2 ''Savings_vs_Desired'' \<Longrightarrow>
   savings_gap_rule row1 ns = savings_gap_rule row2 ns"
  by (cases "map_of row1 ''Savings_vs_Desired''"; cases "map_of row2 ''Savings_vs_Desired''")
    (simp_all add: savings_gap_rule_def getitem_def bind_result_def same_ratio_def)

lemma discretionary_rule_cong:
  "same_ratio row1 row2 ''Discretionary_to_Income'' \<Longrightarrow>
   discretionary_rule row1 ns = discretionary_rule row2 ns"
  by (cases "map_of row1 ''Discretionary_to_Income''";
      cases "map_of row2 ''Discretionary_to_Income''")
    (simp_all add: discretionary_rule_def getitem_def bind_result_def same_ratio_def)

lemma rent_burden_rule_cong:
  "same_ratio row1 row2 ''Rent_to_Income'' \<Longrightarrow>
   rent_burden_rule row1 ns = rent_burden_rule row2 ns"
  by (cases "map_of row1 ''Rent_to_Income''"; cases "map_of row2 ''Rent_to_Income''")
    (simp_all add: rent_burden_rule_def getitem_def bind_result_def same_ratio_def)

lemma loan_burden_rule_cong:
  "same_ratio row1 row2 ''Loan_to_Income'' \<Longrightarrow>
   loan_burden_rule row1 ns = loan_burden_rule row2 ns"
  by (cases "map_of row1 ''Loan_to_Income''"; cases "map_of row2 ''Loan_to_Income''")
    (simp_all add: loan_burden_rule_def getitem_def bind_result_def same_ratio_def)

text \<open>
  Claim C10. The result of the rule engine depends only on the five ratio fields: two
  rows that agree on them (each field missing in both, or present in both with the same
  number) give the same result, whatever else the rows hold (Overspending_Alert,
  Savings_Rate, Income, the raw category amounts).
\<close>

theorem nudges_depend_only_on_ratio_fields:
  assumes "list_all (same_ratio row1 row2) ratio_fields"
  shows "generate_nudges row1 = generate_nudges row2"
proof -
  from assms have s: "same_ratio row1 row2 ''Disposable_Utilization''"
    "same_ratio row1 row2 ''Savings_vs_Desired''"
    "same_ratio row1 row2 ''Discretionary_to_Income''"
    "same_ratio row1 row2 ''Rent_to_Income''"
    "same_ratio row1 row2 ''Loan_to_Income''"
    by (simp_all add: ratio_fields_def)
  have l: "loan_burden_rule row1 = loan_burden_rule row2"
    by (rule ext) (rule loan_burden_rule_cong[OF s(5)])
  show ?thesis
    unfolding generate_nudges_def
    by (simp only: overspending_rule_cong[OF s(1)] savings_gap_rule_cong[OF s(2)]
        discretionary_rule_cong[OF s(3)] rent_burden_rule_cong[OF s(4)] l)
qed

theorem nudges_depend_only_on_ratio_fields_witness:
  "list_all (same_ratio
       (ratios_row 0.9 0 0 0 0
          @ [(''Overspending_Alert'', PBool False), (''Income'', PFloat 5000),
             (''Savings_Rate'', PFloat 0.4), (''Rent'', PFloat 0)])
       ([(''Income'', PFloat 1000), (''Overspending_Alert'', PBool True),
         (''Savings_Rate'', PFloat 0), (''Rent'', PFloat 10)] @ ratios_row 0.9 0 0 0 0))
     ratio_fields
   \<and> generate_nudges
       (ratios_row 0.9 0 0 0 0
          @ [(''Overspending_Alert'', PBool False), (''Income'', PFloat 5000),
             (''Savings_Rate'', PFloat 0.4), (''Rent'', PFloat 0)])
     = generate_nudges
       ([(''Income'', PFloat 1000), (''Overspending_Alert'', PBool True),
         (''Savings_Rate'', PFloat 0), (''Rent'', PFloat 10)] @ ratios_row 0.9 0 0 0 0)"
proof -
  have a: "list_all (same_ratio
       (ratios_row 0.9 0 0 0 0
          @ [(''Overspending_Alert'', PBool False), (''Income'', PFloat 5000),
             (''Savings_Rate'', PFloat 0.4), (''Rent'', PFloat 0)])
       ([(''Income'', PFloat 1000), (''Overspending_Alert'', PBool True),
         (''Savings_Rate'', PFloat 0), (''Rent'', PFloat 10)] @ ratios_row 0.9 0 0 0 0))
     ratio_fields"
    by (simp add: same_ratio_def ratio_fields_def ratios_row_def)
  from nudges_depend_only_on_ratio_fields[OF a] a show ?thesis by simp
qed



text \<open>
  Claim C1, as amended. When the discretionary ratio lies strictly between 0.25 and
  0.35 and no other rule fires, the rule engine returns the single medium-tier
  discretionary message, and the classifier returns Low: its Medium markers are the
  Overspending-medium, SavingsGap-medium and Discretionary-high texts, and one message
  is fewer than three.
\<close>

theorem discretionary_medium_alone_is_low:
  assumes "has_ratio_fields row"
    and "0.25 < ratio row ''Discretionary_to_Income''"
    and "ratio row ''Discretionary_to_Income'' < 0.35"
    and "ratio row ''Disposable_Utilization'' \<le> 0.85"
    and "ratio row ''Savings_vs_Desired'' \<ge> - 0.05"
    and "ratio row ''Rent_to_Income'' \<le> 0.3"
    and "ratio row ''Loan_to_Income'' \<le> 0.3"
  shows "generate_nudges row = Inr [msg_discretionary_reduce]
     \<and> nudge_priority row = Inr ''Low''"
proof -
  have g: "generate_nudges row = Inr [msg_discretionary_reduce]"
    using assms(2-) by (simp add: generate_nudges_closed[OF assms(1)])
  show ?thesis
    by (simp add: nudge_priority_def g classify_single_low bind_result_def)
qed

theorem discretionary_medium_alone_is_low_witness:
  "has_ratio_fields (ratios_row 0.5 0.2 0.3 0.2 0.1)
   \<and> 0.25 < ratio (ratios_row 0.5 0.2 0.3 0.2 0.1) ''Discretionary_to_Income''
   \<and> ratio (ratios_row 0.5 0.2 0.3 0.2 0.1) ''Discretionary_to_Income'' < 0.35
   \<and> ratio (ratios_row 0.5 0.2 0.3 0.2 0.1) ''Disposable_Utilization'' \<le> 0.85
   \<and> ratio (ratios_row 0.5 0.2 0.3 0.2 0.1) ''Savings_vs_Desired'' \<ge> - 0.05
   \<and> ratio (ratios_row 0.5 0.2 0.3 0.2 0.1) ''Rent_to_Income'' \<le> 0.3
   \<and> ratio (ratios_row 0.5 0.2 0.3 0.2 0.1) ''Loan_to_Income'' \<le> 0.3
   \<and> generate_nudges (ratios_row 0.5 0.2 0.3 0.2 0.1) = Inr [msg_discretionary_reduce]
   \<and> nudge_priority (ratios_row 0.5 0.2 0.3 0.2 0.1) = Inr ''Low''"
  using discretionary_medium_alone_is_low[of "ratios_row 0.5 0.2 0.3 0.2 0.1"]
  by (simp add: ratios_row_fields ratios_row_ratio)

section \<open>The derived metrics\<close>

lemma derive_metrics_nonzero:
  assumes "income r \<noteq> 0"
  shows "derive_metrics r = Inr \<lparr>
      total_expenses = (rent r + loan_repay r + insurance r)
        + (groceries r + transport r + utilities r + healthcare r + education r)
        + (eating_out r + entertainment r + misc r),
      discretionary_spend = eating_out r + entertainment r + misc r,
      discretionary_to_income = (eating_out r + entertainment r + misc r) / income r,
      disposable_utilization = ((rent r + loan_repay r + insurance r)
        + (groceries r + transport r + utilities r + healthcare r + education r)
        + (eating_out r + entertainment r + misc r)) / income r,
      savings_vs_desired = (actual_savings r - desired_savings r) / income r,
      rent_to_income = rent r / income r,
      loan_to_income = loan_repay r / income r,
      overspending_alert = (((rent r + loan_repay r + insurance r)
        + (groceries r + transport r + utilities r + healthcare r + education r)
        + (eating_out r + entertainment r + misc r)) / income r > 1),
      savings_rate = actual_savings r / income r \<rparr>"
  using assms
  by (simp add: derive_metrics_def py_div_def bind_result_def py_sum_def dict_values_def
      fixed_def essential_def discretionary_def Let_def)

lemma derive_metrics_zero:
  assumes "income r = 0"
  shows "derive_metrics r = Inl ZeroDivisionError"
  using assms
  by (simp add: derive_metrics_def py_div_def bind_result_def Let_def)

text \<open>
  Claim C5. For inputs with a positive income the metrics are computed,
  Disposable_Utilization is Total_Expenses divided by the income, and
  Overspending_Alert is true exactly when Disposable_Utilization is greater than 1.0.
\<close>

theorem overspending_alert_iff_utilization_above_one:
  assumes "income r > 0"
  shows "\<exists>m. derive_metrics r = Inr m
     \<and> disposable_utilization m = total_expenses m / income r
     \<and> (overspending_alert m \<longleftrightarrow> disposable_utilization m > 1.0)"
proof -
  from assms have "income r \<noteq> 0" by simp
  from derive_metrics_nonzero[OF this] show ?thesis by simp
qed

theorem overspending_alert_iff_utilization_above_one_witness:
  "income (default_inputs\<lparr>rent := 6000\<rparr>) > 0
   \<and> derive_metrics (default_inputs\<lparr>rent := 6000\<rparr>)
        = Inr \<lparr> total_expenses = 6000, discretionary_spend = 0,
            discretionary_to_income = 0, disposable_utilization = 1.2,
            savings_vs_desired = 0.2, rent_to_income = 1.2, loan_to_income = 0,
            overspending_alert = True, savings_rate = 0.4 \<rparr>
   \<and> (\<exists>m. derive_metrics (default_inputs\<lparr>rent := 6000\<rparr>) = Inr m
        \<and> disposable_utilization m = total_expenses m / income (default_inputs\<lparr>rent := 6000\<rparr>)
        \<and> (overspending_alert m \<longleftrightarrow> disposable_utilization m > 1.0))"
proof -
  let ?r = "default_inputs\<lparr>rent := 6000\<rparr>"
  have h: "income ?r > 0" by (simp add: default_inputs_def)
  have d: "derive_metrics ?r
        = Inr \<lparr> total_expenses = 6000, discretionary_spend = 0,
            discretionary_to_income = 0, disposable_utilization = 1.2,
            savings_vs_desired = 0.2, rent_to_income = 1.2, loan_to_income = 0,
            overspending_alert = True, savings_rate = 0.4 \<rparr>"
    by (simp add: derive_metrics_nonzero default_inputs_def)
  from h d overspending_alert_iff_utilization_above_one[OF h] show ?thesis
    by (intro conjI)
qed

section \<open>The assembled feature row\<close>

lemma map_of_fill_step:
  "map_of (if map_of d col = None then AList.update col (PInt 0) d else d) k =
     (case map_of d k of Some v \<Rightarrow> Some v
      | None \<Rightarrow> if k = col then Some (PInt 0) else None)"
  by (auto simp: update_conv' split: option.splits)

lemma map_of_fill_missing:
  "map_of (fill_missing cols d) k =
     (case map_of d k of Some v \<Rightarrow> Some v
      | None \<Rightarrow> if k \<in> set cols then Some (PInt 0) else None)"
  unfolding fill_missing_def
proof (induction cols arbitrary: d)
  case Nil
  show ?case by (simp split: option.splits)
next
  case (Cons c cs)
  show ?case
    unfolding foldl_Cons Cons.IH map_of_fill_step
    by (auto split: option.splits)
qed

lemma select_columns_total:
  assumes "\<forall>c \<in> set cols. map_of d c \<noteq> None"
  shows "select_columns d cols = Inr (map (\<lambda>c. (c, the (map_of d c))) cols)"
  using assms by (induction cols) (auto simp: bind_result_def)

lemma input_df_closed:
  "input_df r m cols = Inr (map (\<lambda>c. (c, case map_of (encoded_user_data r m) c of
       Some v \<Rightarrow> v | None \<Rightarrow> PInt 0)) cols)"
proof -
  have p: "\<forall>c \<in> set cols. map_of (filled_user_data r m cols) c \<noteq> None"
    by (auto simp: filled_user_data_def map_of_fill_missing split: option.splits)
  have "map (\<lambda>c. (c, the (map_of (filled_user_data r m cols) c))) cols
      = map (\<lambda>c. (c, case map_of (encoded_user_data r m) c of
       Some v \<Rightarrow> v | None \<Rightarrow> PInt 0)) cols"
    by (rule map_cong)
      (auto simp: filled_user_data_def map_of_fill_missing split: option.splits)
  with select_columns_total[OF p] show ?thesis
    by (simp add: input_df_def)
qed

lemmas encoded_defs = encoded_user_data_def one_hot_def user_data_def dict_display_def
  float_items_def fixed_def essential_def discretionary_def

lemma encoded_keys:
  "map fst (encoded_user_data r m) =
    [''Income'', ''Age'', ''Dependents'', ''Desired_Savings'', ''Actual_Savings'',
     ''Total_Expenses'', ''Disposable_Utilization'', ''Discretionary_to_Income'',
     ''Savings_vs_Desired'', ''Rent_to_Income'', ''Loan_to_Income'', ''Overspending_Alert'',
     ''Savings_Rate'', ''Rent'', ''Loan_Repayment'', ''Insurance'', ''Groceries'',
     ''Transport'', ''Utilities'', ''Healthcare'', ''Education'', ''Eating_Out'',
     ''Entertainment'', ''Miscellaneous'', ''Occupation_Employed'',
     ''Occupation_Self_Employed'', ''Occupation_Student'', ''Occupation_Retired'',
     ''City_Tier_Tier_1'', ''City_Tier_Tier_2'', ''City_Tier_Tier_3'']"
  by (simp add: encoded_defs)

lemma encoded_ratio_fields:
  "map_of (encoded_user_data r m) ''Disposable_Utilization''
     = Some (PFloat (disposable_utilization m))"
  "map_of (encoded_user_data r m) ''Savings_vs_Desired''
     = Some (PFloat (savings_vs_desired m))"
  "map_of (encoded_user_data r m) ''Discretionary_to_Income''
     = Some (PFloat (discretionary_to_income m))"
  "map_of (encoded_user_data r m) ''Rent_to_Income'' = Some (PFloat (rent_to_income m))"
  "map_of (encoded_user_data r m) ''Loan_to_Income'' = Some (PFloat (loan_to_income m))"
  by (simp_all add: encoded_defs update_conv')

text \<open>
  Claim C7. For all inputs and every schema \<^verbatim>\<open>feature_cols\<close> (the empty schema
  included) the selection succeeds; the keys of the assembled row are the schema, in
  its order and of its length; a schema field that the dictionary does not hold after
  the one-hot loops has the value 0, and a field that it holds has the value held.
\<close>

theorem feature_vector_follows_schema:
  "\<exists>fv. input_df r m cols = Inr fv
     \<and> map fst fv = cols
     \<and> length fv = length cols
     \<and> (\<forall>i < length cols. map_of (encoded_user_data r m) (cols ! i) = None
           \<longrightarrow> snd (fv ! i) = PInt 0)
     \<and> (\<forall>i < length cols. \<forall>v. map_of (encoded_user_data r m) (cols ! i) = Some v
           \<longrightarrow> snd (fv ! i) = v)"
  unfolding input_df_closed by (simp add: comp_def)

theorem feature_vector_follows_schema_witness:
  "map_of (encoded_user_data default_inputs default_metrics) ''Credit_Score'' = None
   \<and> map_of (encoded_user_data default_inputs default_metrics) ''Occupation_Employed''
       = Some (PInt 1)
   \<and> (\<exists>fv. input_df default_inputs default_metrics
              [''Occupation_Employed'', ''Credit_Score'', ''Income''] = Inr fv
        \<and> map fst fv = [''Occupation_Employed'', ''Credit_Score'', ''Income'']
        \<and> length fv = 3
        \<and> snd (fv ! 0) = PInt 1
        \<and> snd (fv ! 1) = PInt 0)"
proof -
  let ?e = "encoded_user_data default_inputs default_metrics"
  let ?cols = "[''Occupation_Employed'', ''Credit_Score'', ''Income'']"
  have "''Credit_Score'' \<notin> set (map fst ?e)"
    unfolding encoded_keys by simp
  then have n: "map_of ?e ''Credit_Score'' = None"
    by (simp add: map_of_eq_None_iff)
  have p: "map_of ?e ''Occupation_Employed'' = Some (PInt 1)"
    by (simp add: encoded_defs update_conv' default_inputs_def)
  from feature_vector_follows_schema[of default_inputs default_metrics ?cols]
  obtain fv where h: "input_df default_inputs default_metrics ?cols = Inr fv
     \<and> map fst fv = ?cols
     \<and> length fv = length ?cols
     \<and> (\<forall>i < length ?cols. map_of ?e (?cols ! i) = None \<longrightarrow> snd (fv ! i) = PInt 0)
     \<and> (\<forall>i < length ?cols. \<forall>v. map_of ?e (?cols ! i) = Some v \<longrightarrow> snd (fv ! i) = v)"
    ..
  from h have f1: "input_df default_inputs default_metrics ?cols = Inr fv"
    by (rule conjunct1)
  from h have f2: "map fst fv = ?cols"
    by (rule conjunct2[THEN conjunct1])
  from h have f3': "length fv = length ?cols"
    by (rule conjunct2[THEN conjunct2, THEN conjunct1])
  from h have z: "\<forall>i < length ?cols. map_of ?e (?cols ! i) = None \<longrightarrow> snd (fv ! i) = PInt 0"
    by (rule conjunct2[THEN conjunct2, THEN conjunct2, THEN conjunct1])
  from h have v: "\<forall>i < length ?cols. \<forall>v. map_of ?e (?cols ! i) = Some v \<longrightarrow> snd (fv ! i) = v"
    by (rule conjunct2[THEN conjunct2, THEN conjunct2, THEN conjunct2])
  have c1: "?cols ! 1 = ''Credit_Score''" and c0: "?cols ! 0 = ''Occupation_Employed''"
    and l: "length ?cols = 3"
    by simp_all
  from z have "1 < length ?cols \<longrightarrow> map_of ?e (?cols ! 1) = None
      \<longrightarrow> snd (fv ! 1) = PInt 0"
    by (rule spec)
  then have z1: "snd (fv ! 1) = PInt 0"
    unfolding c1 l using n by simp
  from v have "0 < length ?cols \<longrightarrow> (\<forall>v. map_of ?e (?cols ! 0) = Some v
      \<longrightarrow> snd (fv ! 0) = v)"
    by (rule spec)
  then have v0: "snd (fv ! 0) = PInt 1"
    unfolding c0 l using p by simp
  from f3' have f3: "length fv = 3" unfolding l .
  from f1 f2 f3 v0 z1 have "input_df default_inputs default_metrics ?cols = Inr fv
        \<and> map fst fv = ?cols \<and> length fv = 3 \<and> snd (fv ! 0) = PInt 1
        \<and> snd (fv ! 1) = PInt 0"
    by (intro conjI)
  then have "\<exists>fv. input_df default_inputs default_metrics ?cols = Inr fv
        \<and> map fst fv = ?cols \<and> length fv = 3 \<and> snd (fv ! 0) = PInt 1
        \<and> snd (fv ! 1) = PInt 0"
    by (rule exI)
  with n p show ?thesis by (intro conjI)
qed

section \<open>The analysis of a request\<close>

lemma filled_has_ratio_fields: "has_ratio_fields (filled_user_data r m cols)"
  by (simp add: has_ratio_fields_def ratio_fields_def filled_user_data_def
      map_of_fill_missing encoded_ratio_fields)

lemma filled_ratio:
  "ratio (filled_user_data r m cols) ''Disposable_Utilization'' = disposable_utilization m"
  "ratio (filled_user_data r m cols) ''Savings_vs_Desired'' = savings_vs_desired m"
  "ratio (filled_user_data r m cols) ''Discretionary_to_Income''
     = discretionary_to_income m"
  "ratio (filled_user_data r m cols) ''Rent_to_Income'' = rent_to_income m"
  "ratio (filled_user_data r m cols) ''Loan_to_Income'' = loan_to_income m"
  by (simp_all add: ratio_def filled_user_data_def map_of_fill_missing
      encoded_ratio_fields)

lemma generate_nudges_filled:
  "generate_nudges (filled_user_data r m cols)
     = generate_nudges (ratios_row (disposable_utilization m) (savings_vs_desired m)
         (discretionary_to_income m) (rent_to_income m) (loan_to_income m))"
  by (simp only: generate_nudges_closed[OF filled_has_ratio_fields]
      generate_nudges_closed[OF ratios_row_fields] filled_ratio ratios_row_ratio)

text \<open>
  Claim C1, as stated, fails: with the starting values and 1500 of eating out on an
  income of 5000 the discretionary ratio is 0.30, the only nudge is the medium-tier
  discretionary one, and the priority is Low, not Medium.
\<close>

theorem discretionary_medium_alone_not_medium:
  "derive_metrics (default_inputs\<lparr>eating_out := 1500\<rparr>)
     = Inr \<lparr> total_expenses = 1500, discretionary_spend = 1500,
         discretionary_to_income = 0.3, disposable_utilization = 0.3,
         savings_vs_desired = 0.2, rent_to_income = 0, loan_to_income = 0,
         overspending_alert = False, savings_rate = 0.4 \<rparr>
   \<and> analyze (default_inputs\<lparr>eating_out := 1500\<rparr>) [''Income'', ''Age'']
     = Inr ([msg_discretionary_reduce], ''Low'')
   \<and> generate_nudges (ratios_row 0.3 0.2 0.3 0 0) = Inr [msg_discretionary_reduce]
   \<and> nudge_priority (ratios_row 0.3 0.2 0.3 0 0) = Inr ''Low''
   \<and> nudge_priority (ratios_row 0.3 0.2 0.3 0 0) \<noteq> Inr ''Medium''"
proof -
  have d: "derive_metrics (default_inputs\<lparr>eating_out := 1500\<rparr>)
     = Inr \<lparr> total_expenses = 1500, discretionary_spend = 1500,
         discretionary_to_income = 0.3, disposable_utilization = 0.3,
         savings_vs_desired = 0.2, rent_to_income = 0, loan_to_income = 0,
         overspending_alert = False, savings_rate = 0.4 \<rparr>"
    by (simp add: derive_metrics_nonzero default_inputs_def)
  have g: "generate_nudges (ratios_row 0.3 0.2 0.3 0 0) = Inr [msg_discretionary_reduce]"
    by (simp add: generate_nudges_closed[OF ratios_row_fields] ratios_row_ratio)
  have a: "analyze (default_inputs\<lparr>eating_out := 1500\<rparr>) [''Income'', ''Age'']
     = Inr ([msg_discretionary_reduce], ''Low'')"
    unfolding analyze_def d using g
    by (simp add: bind_result_def generate_nudges_filled classify_single_low)
  have p: "nudge_priority (ratios_row 0.3 0.2 0.3 0 0) = Inr ''Low''"
    using g by (simp add: nudge_priority_def bind_result_def classify_single_low)
  have q: "nudge_priority (ratios_row 0.3 0.2 0.3 0 0) \<noteq> Inr ''Medium''"
    unfolding p by simp
  from d a g p q show ?thesis by (intro conjI)
qed

end
